theory Spec2Isabelle
  imports Main "HOL-Library.Word"
begin

unbundle bit_operations_syntax

section \<open>Data model of wheel\_api.cpp\<close>

text \<open>
  The reference implementation is one C++ file, \<^verbatim>\<open>wheel_api.cpp\<close>, built on the hidapi
  library. All reports are packed structures that the code fills in through pointer casts,
  so a report is modelled by its object representation: a list of bytes. The fixed-size
  types of C are words: \<^verbatim>\<open>uint8_t\<close> and \<^verbatim>\<open>int8_t\<close> are \<open>8 word\<close> (read with \<open>uint\<close> and
  \<open>sint\<close>), \<^verbatim>\<open>uint16_t\<close> and \<^verbatim>\<open>int16_t\<close> are \<open>16 word\<close>. A \<^verbatim>\<open>float\<close> is never computed
  with, only stored, so it is carried as its 32-bit object representation. The \<^verbatim>\<open>int\<close>
  results of hidapi are passed through without arithmetic and are modelled as \<open>int\<close>.
\<close>

type_synonym byte = "8 word"
type_synonym float32 = "32 word"

text \<open>The handle \<^verbatim>\<open>hid_device *\<close>: \<open>None\<close> is \<^verbatim>\<open>nullptr\<close>, \<open>Some h\<close> an open device.\<close>

type_synonym hid_device = nat

text \<open>The two members of \<^verbatim>\<open>struct hid_device_info\<close> that \<^verbatim>\<open>connect\<close> reads.\<close>

record hid_device_info =
  path :: string
  interface_number :: int

text \<open>
  The header \<^verbatim>\<open>wheel_api.h\<close> is not part of the sources. The enumerators it declares are
  taken as parameters: every function below receives them in a record of this type and
  no theorem depends on their values.
\<close>

record wheel_api_h =
  USB_VID :: "16 word"
  WHEEL_PID_FS :: "16 word"
  REPORT_GENERIC_INPUT_OUTPUT :: byte
  REPORT_EFFECT_SETTINGS_FEATURE :: byte
  REPORT_HARDWARE_SETTINGS_FEATURE :: byte
  REPORT_GPIO_SETTINGS_FEATURE :: byte
  REPORT_ADC_SETTINGS_FEATURE :: byte
  DATA_COMMAND_SAVE_SETTINGS :: byte
  DATA_COMMAND_REBOOT :: byte
  DATA_COMMAND_DFU_MODE :: byte
  DATA_COMMAND_RESET_CENTER :: byte
  DATA_OVERRIDE_DATA :: byte
  DATA_SETTINGS_FIELD_DATA :: byte

text \<open>The byte order of the host, which the code never fixes: a parameter as well.\<close>

datatype byte_order = LittleEndian | BigEndian

subsection \<open>The transport\<close>

text \<open>
  Every call into hidapi is recorded, in order, with the arguments the code passes. For a
  call that hands a buffer to the library the record keeps what the library needs from
  it: the bytes sent and the length for \<^verbatim>\<open>hid_write\<close>, the length and the timeout for
  \<^verbatim>\<open>hid_read_timeout\<close>, the pre-filled first byte (the report identifier) and the length
  for \<^verbatim>\<open>hid_get_feature_report\<close>.
\<close>

datatype hid_call =
    HidEnumerate "16 word" "16 word"
  | HidOpenPath string
  | HidFreeEnumeration "hid_device_info list"
  | HidWrite hid_device "byte list" nat
  | HidReadTimeout hid_device nat int
  | HidGetFeatureReport hid_device byte nat

text \<open>
  hidapi and the device behind it are outside the repository. Their answers are a
  parameter: each primitive is a function of the calls made so far and of its arguments.
  A primitive that fills a buffer answers with its \<^verbatim>\<open>int\<close> result and the bytes it
  stores from the start of the buffer.
\<close>

record hidapi =
  hid_enumerate :: "hid_call list \<Rightarrow> 16 word \<Rightarrow> 16 word \<Rightarrow> hid_device_info list"
  hid_open_path :: "hid_call list \<Rightarrow> string \<Rightarrow> hid_device option"
  hid_write :: "hid_call list \<Rightarrow> hid_device \<Rightarrow> byte list \<Rightarrow> nat \<Rightarrow> int"
  hid_read_timeout :: "hid_call list \<Rightarrow> hid_device \<Rightarrow> nat \<Rightarrow> int \<Rightarrow> int \<times> byte list"
  hid_get_feature_report :: "hid_call list \<Rightarrow> hid_device \<Rightarrow> byte \<Rightarrow> nat \<Rightarrow> int \<times> byte list"

text \<open>The state the methods of \<^verbatim>\<open>WheelApi\<close> act on: the member \<^verbatim>\<open>handle\<close> and the calls made.\<close>

record wheel_state =
  handle :: "hid_device option"
  calls :: "hid_call list"

text \<open>
  A primitive given a buffer and a length stores at most that many bytes, from the start
  of the buffer, and leaves the rest as it was.
\<close>

definition filled :: "nat \<Rightarrow> byte list \<Rightarrow> byte list \<Rightarrow> byte list" where
  "filled len data buf = take len data @ drop (length (take len data)) buf"

subsection \<open>Report layouts\<close>

text \<open>
  Modelled from the spec: the packed structures \<^verbatim>\<open>HidInOutReportTypeDef\<close>,
  \<^verbatim>\<open>DataReportTypeDef\<close>, \<^verbatim>\<open>FieldDataTypeDef\<close> and \<^verbatim>\<open>FieldValueTypeDef\<close> are declared in the
  absent header. The wire layout table of the spec gives the offsets of their members in
  the 65-byte frame: Report Identifier at 0.
\<close>

definition off_ReportId :: nat where
  "off_ReportId = 0"

text \<open>
  Modelled from the spec: Command/Data Discriminator (\<^verbatim>\<open>DataReportTypeDef.ReportData\<close>,
  header absent) at offset 1 of the frame.
\<close>

definition off_ReportData :: nat where
  "off_ReportData = 1"

text \<open>
  Modelled from the spec: the body of a generic report (\<^verbatim>\<open>DataReportTypeDef.Buffer\<close>, header
  absent) starts at offset 2; the Direct Control structure is copied there.
\<close>

definition off_DataBuffer :: nat where
  "off_DataBuffer = 2"

text \<open>
  Modelled from the spec: Field Identifier (\<^verbatim>\<open>FieldDataTypeDef.FieldId\<close>, header absent) at
  offset 2 of the frame.
\<close>

definition off_FieldId :: nat where
  "off_FieldId = 2"

text \<open>
  Modelled from the spec: Index (\<^verbatim>\<open>FieldValueTypeDef.Index\<close>, header absent) at offset 3 of
  the frame.
\<close>

definition off_Index :: nat where
  "off_Index = 3"

text \<open>
  Modelled from the spec: the value bytes (\<^verbatim>\<open>FieldValueTypeDef.Buffer\<close>, header absent, seen
  through one of the five value wrappers) start at offset 4 of the frame.
\<close>

definition off_Value :: nat where
  "off_Value = 4"

text \<open>Modelled from the spec: a frame (\<^verbatim>\<open>HidInOutReportTypeDef\<close>, header absent) has 65 bytes.\<close>

definition sizeof_HidInOutReportTypeDef :: nat where
  "sizeof_HidInOutReportTypeDef = 65"

text \<open>\<^verbatim>\<open>HidInOutReportTypeDef genericReport = {};\<close> value-initialises every byte to zero.\<close>

definition zero_report :: "byte list" where
  "zero_report = replicate sizeof_HidInOutReportTypeDef 0"

subsection \<open>Object representations\<close>

text \<open>The bytes of a 16-bit and of a 32-bit object in memory, lowest address first.\<close>

fun bytes_of_16 :: "byte_order \<Rightarrow> 16 word \<Rightarrow> byte list" where
  "bytes_of_16 LittleEndian v = [ucast v, ucast (drop_bit 8 v)]"
| "bytes_of_16 BigEndian v = [ucast (drop_bit 8 v), ucast v]"

fun bytes_of_32 :: "byte_order \<Rightarrow> 32 word \<Rightarrow> byte list" where
  "bytes_of_32 LittleEndian v =
     [ucast v, ucast (drop_bit 8 v), ucast (drop_bit 16 v), ucast (drop_bit 24 v)]"
| "bytes_of_32 BigEndian v =
     [ucast (drop_bit 24 v), ucast (drop_bit 16 v), ucast (drop_bit 8 v), ucast v]"

text \<open>Reading such an object back from its bytes.\<close>

fun word16_of :: "byte_order \<Rightarrow> byte \<Rightarrow> byte \<Rightarrow> 16 word" where
  "word16_of LittleEndian b0 b1 = ucast b0 OR push_bit 8 (ucast b1)"
| "word16_of BigEndian b0 b1 = ucast b1 OR push_bit 8 (ucast b0)"

fun word32_of :: "byte_order \<Rightarrow> byte \<Rightarrow> byte \<Rightarrow> byte \<Rightarrow> byte \<Rightarrow> 32 word" where
  "word32_of LittleEndian b0 b1 b2 b3 =
     ucast b0 OR push_bit 8 (ucast b1) OR push_bit 16 (ucast b2) OR push_bit 24 (ucast b3)"
| "word32_of BigEndian b0 b1 b2 b3 =
     ucast b3 OR push_bit 8 (ucast b2) OR push_bit 16 (ucast b1) OR push_bit 24 (ucast b0)"

text \<open>
  A store of an object at a byte offset of a buffer. Every store of the source lies inside
  the 65 bytes of the frame it is given, except the \<^verbatim>\<open>memcpy\<close> of
  \<^verbatim>\<open>sendDirectControl\<close>, which checks nothing and is guarded in the model.
\<close>

definition store :: "nat \<Rightarrow> byte list \<Rightarrow> byte list \<Rightarrow> byte list" where
  "store off src buf = take off buf @ src @ drop (off + length src) buf"

text \<open>Loads of the members of a frame, as the firmware reads them through the same structures.\<close>

definition load_u8 :: "nat \<Rightarrow> byte list \<Rightarrow> byte" where
  "load_u8 off buf = buf ! off"

definition load_16 :: "byte_order \<Rightarrow> nat \<Rightarrow> byte list \<Rightarrow> 16 word" where
  "load_16 bo off buf = word16_of bo (buf ! off) (buf ! (off + 1))"

definition load_32 :: "byte_order \<Rightarrow> nat \<Rightarrow> byte list \<Rightarrow> 32 word" where
  "load_32 bo off buf =
     word32_of bo (buf ! off) (buf ! (off + 1)) (buf ! (off + 2)) (buf ! (off + 3))"

text \<open>
  The implicit conversions of C between a signed and an unsigned type of the same width:
  the value is reduced modulo \<open>2 ^ N\<close>.
\<close>

definition int8_to_uint8 :: "8 word \<Rightarrow> 8 word" where
  "int8_to_uint8 v = word_of_int (sint v)"

definition int16_to_uint16 :: "16 word \<Rightarrow> 16 word" where
  "int16_to_uint16 v = word_of_int (sint v)"

text \<open>
  \<^verbatim>\<open>SettingsFieldEnum\<close> is declared in the absent header; an enumerator is carried as its
  integer value, which the call of a \<^verbatim>\<open>Create...SettingsReport\<close> converts to \<^verbatim>\<open>uint8_t\<close>.
\<close>

type_synonym SettingsFieldEnum = int

definition enum_to_uint8 :: "SettingsFieldEnum \<Rightarrow> 8 word" where
  "enum_to_uint8 field = word_of_int field"

section \<open>The operations\<close>

subsection \<open>connect\<close>

text \<open>The \<^verbatim>\<open>while (cur_dev)\<close> loop over the linked list: the path of the first interface 0.\<close>

fun path_to_open :: "hid_device_info list \<Rightarrow> string option" where
  "path_to_open [] = None"
| "path_to_open (cur_dev # next) =
     (if interface_number cur_dev = 0 then Some (path cur_dev) else path_to_open next)"

definition connect :: "wheel_api_h \<Rightarrow> hidapi \<Rightarrow> wheel_state \<Rightarrow> int \<times> wheel_state" where
  "connect hdr api s =
     (let devs = hid_enumerate api (calls s) (USB_VID hdr) (WHEEL_PID_FS hdr);
          s1 = s\<lparr>calls := calls s @ [HidEnumerate (USB_VID hdr) (WHEEL_PID_FS hdr)]\<rparr>;
          (result, s2) =
            (case path_to_open devs of
               None \<Rightarrow> (0, s1)
             | Some p \<Rightarrow>
                 (1, s1\<lparr>handle := hid_open_path api (calls s1) p,
                        calls := calls s1 @ [HidOpenPath p]\<rparr>))
      in (result, s2\<lparr>calls := calls s2 @ [HidFreeEnumeration devs]\<rparr>))"

subsection \<open>Commands without a body\<close>

text \<open>The tail shared by every sending method: \<^verbatim>\<open>return hid_write(handle, &report, 65);\<close>\<close>

definition write_report :: "hidapi \<Rightarrow> wheel_state \<Rightarrow> hid_device \<Rightarrow> byte list \<Rightarrow> int \<times> wheel_state" where
  "write_report api s h report =
     (hid_write api (calls s) h report 65, s\<lparr>calls := calls s @ [HidWrite h report 65]\<rparr>)"

definition saveAndReboot :: "wheel_api_h \<Rightarrow> hidapi \<Rightarrow> wheel_state \<Rightarrow> int \<times> wheel_state" where
  "saveAndReboot hdr api s =
     (case handle s of
        Some h \<Rightarrow>
          (let genericReport = zero_report;
               genericReport = genericReport[off_ReportId := REPORT_GENERIC_INPUT_OUTPUT hdr];
               genericReport = genericReport[off_ReportData := DATA_COMMAND_SAVE_SETTINGS hdr]
           in write_report api s h genericReport)
      | None \<Rightarrow> (0, s))"

definition rebootController :: "wheel_api_h \<Rightarrow> hidapi \<Rightarrow> wheel_state \<Rightarrow> int \<times> wheel_state" where
  "rebootController hdr api s =
     (case handle s of
        Some h \<Rightarrow>
          (let genericReport = zero_report;
               genericReport = genericReport[off_ReportId := REPORT_GENERIC_INPUT_OUTPUT hdr];
               genericReport = genericReport[off_ReportData := DATA_COMMAND_REBOOT hdr]
           in write_report api s h genericReport)
      | None \<Rightarrow> (0, s))"

definition switchtoDfu :: "wheel_api_h \<Rightarrow> hidapi \<Rightarrow> wheel_state \<Rightarrow> int \<times> wheel_state" where
  "switchtoDfu hdr api s =
     (case handle s of
        Some h \<Rightarrow>
          (let genericReport = zero_report;
               genericReport = genericReport[off_ReportId := REPORT_GENERIC_INPUT_OUTPUT hdr];
               genericReport = genericReport[off_ReportData := DATA_COMMAND_DFU_MODE hdr]
           in write_report api s h genericReport)
      | None \<Rightarrow> (0, s))"

definition resetCenter :: "wheel_api_h \<Rightarrow> hidapi \<Rightarrow> wheel_state \<Rightarrow> int \<times> wheel_state" where
  "resetCenter hdr api s =
     (case handle s of
        Some h \<Rightarrow>
          (let genericReport = zero_report;
               genericReport = genericReport[off_ReportId := REPORT_GENERIC_INPUT_OUTPUT hdr];
               genericReport = genericReport[off_ReportData := DATA_COMMAND_RESET_CENTER hdr]
           in write_report api s h genericReport)
      | None \<Rightarrow> (0, s))"

subsection \<open>Settings reads\<close>

text \<open>
  A settings structure is its object representation, a list of
  \<^verbatim>\<open>sizeof(...SettingsTypeDef)\<close> bytes; the packed report structure declared at the top of
  the file puts one byte, \<^verbatim>\<open>ReportId\<close>, in front of it. The local \<^verbatim>\<open>report\<close> is not
  initialised: its bytes other than \<^verbatim>\<open>ReportId\<close> start with indeterminate values, given by
  the parameter \<open>indet\<close>. The caller's structure behind \<^verbatim>\<open>destination\<close> is passed in and
  returned.
\<close>

definition readEffectSettings ::
  "wheel_api_h \<Rightarrow> hidapi \<Rightarrow> (nat \<Rightarrow> byte) \<Rightarrow> wheel_state \<Rightarrow> byte list \<Rightarrow> int \<times> byte list \<times> wheel_state" where
  "readEffectSettings hdr api indet s destination =
     (let result = 0 in
      case handle s of
        Some h \<Rightarrow>
          (let sizeof_report = 1 + length destination;
               report = REPORT_EFFECT_SETTINGS_FEATURE hdr # map indet [0..<length destination];
               (result, data) =
                 hid_get_feature_report api (calls s) h (report ! 0) sizeof_report;
               s' = s\<lparr>calls := calls s @ [HidGetFeatureReport h (report ! 0) sizeof_report]\<rparr>;
               report = filled sizeof_report data report
           in if result > 0
              then (result, take (length destination) (drop 1 report), s')
              else (result, destination, s'))
      | None \<Rightarrow> (result, destination, s))"

text \<open>
  The next three declare a second \<^verbatim>\<open>int result\<close> inside the \<^verbatim>\<open>if\<close> block. The inner one,
  \<open>result'\<close> here, receives the answer of the transport and guards the copy; the
  \<^verbatim>\<open>return result;\<close> after the block reads the outer one.
\<close>

definition readHardwareSettings ::
  "wheel_api_h \<Rightarrow> hidapi \<Rightarrow> (nat \<Rightarrow> byte) \<Rightarrow> wheel_state \<Rightarrow> byte list \<Rightarrow> int \<times> byte list \<times> wheel_state" where
  "readHardwareSettings hdr api indet s destination =
     (let result = 0 in
      case handle s of
        Some h \<Rightarrow>
          (let sizeof_report = 1 + length destination;
               report = REPORT_HARDWARE_SETTINGS_FEATURE hdr # map indet [0..<length destination];
               (result', data) =
                 hid_get_feature_report api (calls s) h (report ! 0) sizeof_report;
               s' = s\<lparr>calls := calls s @ [HidGetFeatureReport h (report ! 0) sizeof_report]\<rparr>;
               report = filled sizeof_report data report
           in if result' > 0
              then (result, take (length destination) (drop 1 report), s')
              else (result, destination, s'))
      | None \<Rightarrow> (result, destination, s))"

definition readGpioExtensionSettings ::
  "wheel_api_h \<Rightarrow> hidapi \<Rightarrow> (nat \<Rightarrow> byte) \<Rightarrow> wheel_state \<Rightarrow> byte list \<Rightarrow> int \<times> byte list \<times> wheel_state" where
  "readGpioExtensionSettings hdr api indet s destination =
     (let result = 0 in
      case handle s of
        Some h \<Rightarrow>
          (let sizeof_report = 1 + length destination;
               report = REPORT_GPIO_SETTINGS_FEATURE hdr # map indet [0..<length destination];
               (result', data) =
                 hid_get_feature_report api (calls s) h (report ! 0) sizeof_report;
               s' = s\<lparr>calls := calls s @ [HidGetFeatureReport h (report ! 0) sizeof_report]\<rparr>;
               report = filled sizeof_report data report
           in if result' > 0
              then (result, take (length destination) (drop 1 report), s')
              else (result, destination, s'))
      | None \<Rightarrow> (result, destination, s))"

definition readAdcExtensionSettings ::
  "wheel_api_h \<Rightarrow> hidapi \<Rightarrow> (nat \<Rightarrow> byte) \<Rightarrow> wheel_state \<Rightarrow> byte list \<Rightarrow> int \<times> byte list \<times> wheel_state" where
  "readAdcExtensionSettings hdr api indet s destination =
     (let result = 0 in
      case handle s of
        Some h \<Rightarrow>
          (let sizeof_report = 1 + length destination;
               report = REPORT_ADC_SETTINGS_FEATURE hdr # map indet [0..<length destination];
               (result', data) =
                 hid_get_feature_report api (calls s) h (report ! 0) sizeof_report;
               s' = s\<lparr>calls := calls s @ [HidGetFeatureReport h (report ! 0) sizeof_report]\<rparr>;
               report = filled sizeof_report data report
           in if result' > 0
              then (result, take (length destination) (drop 1 report), s')
              else (result, destination, s'))
      | None \<Rightarrow> (result, destination, s))"

subsection \<open>readState\<close>

text \<open>
  \<^verbatim>\<open>readState\<close> hands the transport the local \<^verbatim>\<open>StateReportTypeDef report\<close>, all of it
  uninitialised, with the fixed length 65. The transport may store up to 65 bytes; when
  it stores more than the \<open>1 + sizeof(DeviceStateTypeDef)\<close> bytes of \<^verbatim>\<open>report\<close> the write
  runs past the object and the behaviour is undefined: the model answers \<open>None\<close>.
\<close>

definition readState ::
  "hidapi \<Rightarrow> (nat \<Rightarrow> byte) \<Rightarrow> wheel_state \<Rightarrow> byte list \<Rightarrow> (int \<times> byte list \<times> wheel_state) option" where
  "readState api indet s destination =
     (case handle s of
        Some h \<Rightarrow>
          (let report = map indet [0..<1 + length destination];
               (result, data) = hid_read_timeout api (calls s) h 65 100;
               s' = s\<lparr>calls := calls s @ [HidReadTimeout h 65 100]\<rparr>
           in if length (take 65 data) > length report then None
              else
                (let report = filled 65 data report
                 in if result > 0
                    then Some (result, take (length destination) (drop 1 report), s')
                    else Some (result, destination, s')))
      | None \<Rightarrow> Some (0, destination, s))"

subsection \<open>sendDirectControl\<close>

text \<open>
  \<^verbatim>\<open>DirectControlTypeDef\<close> is declared in the absent header; \<open>control\<close> is its object
  representation, \<^verbatim>\<open>sizeof(DirectControlTypeDef)\<close> bytes. The \<^verbatim>\<open>memcpy\<close> is not checked: a
  structure that does not fit behind offset 2 of the frame is undefined behaviour, \<open>None\<close>.
\<close>

definition sendDirectControl ::
  "wheel_api_h \<Rightarrow> hidapi \<Rightarrow> wheel_state \<Rightarrow> byte list \<Rightarrow> (int \<times> wheel_state) option" where
  "sendDirectControl hdr api s control =
     (case handle s of
        Some h \<Rightarrow>
          (let report = zero_report;
               report = report[off_ReportId := REPORT_GENERIC_INPUT_OUTPUT hdr];
               report = report[off_ReportData := DATA_OVERRIDE_DATA hdr]
           in if off_DataBuffer + length control > sizeof_HidInOutReportTypeDef then None
              else Some (write_report api s h (store off_DataBuffer control report)))
      | None \<Rightarrow> Some (0, s))"

subsection \<open>Typed setting reports\<close>

definition CreateInt8SettingsReport ::
  "wheel_api_h \<Rightarrow> byte list \<Rightarrow> 8 word \<Rightarrow> 8 word \<Rightarrow> 8 word \<Rightarrow> byte list" where
  "CreateInt8SettingsReport hdr report fieldId index value =
     (let report = report[off_ReportId := REPORT_GENERIC_INPUT_OUTPUT hdr];
          report = report[off_ReportData := DATA_SETTINGS_FIELD_DATA hdr];
          report = report[off_FieldId := fieldId];
          report = report[off_Index := index]
      in store off_Value [value] report)"

definition CreateInt16SettingsReport ::
  "wheel_api_h \<Rightarrow> byte_order \<Rightarrow> byte list \<Rightarrow> 8 word \<Rightarrow> 8 word \<Rightarrow> 16 word \<Rightarrow> byte list" where
  "CreateInt16SettingsReport hdr bo report fieldId index value =
     (let report = report[off_ReportId := REPORT_GENERIC_INPUT_OUTPUT hdr];
          report = report[off_ReportData := DATA_SETTINGS_FIELD_DATA hdr];
          report = report[off_FieldId := fieldId];
          report = report[off_Index := index]
      in store off_Value (bytes_of_16 bo value) report)"

definition CreateUInt8SettingsReport ::
  "wheel_api_h \<Rightarrow> byte list \<Rightarrow> 8 word \<Rightarrow> 8 word \<Rightarrow> 8 word \<Rightarrow> byte list" where
  "CreateUInt8SettingsReport hdr report fieldId index value =
     (let report = report[off_ReportId := REPORT_GENERIC_INPUT_OUTPUT hdr];
          report = report[off_ReportData := DATA_SETTINGS_FIELD_DATA hdr];
          report = report[off_FieldId := fieldId];
          report = report[off_Index := index]
      in store off_Value [value] report)"

definition CreateUInt16SettingsReport ::
  "wheel_api_h \<Rightarrow> byte_order \<Rightarrow> byte list \<Rightarrow> 8 word \<Rightarrow> 8 word \<Rightarrow> 16 word \<Rightarrow> byte list" where
  "CreateUInt16SettingsReport hdr bo report fieldId index value =
     (let report = report[off_ReportId := REPORT_GENERIC_INPUT_OUTPUT hdr];
          report = report[off_ReportData := DATA_SETTINGS_FIELD_DATA hdr];
          report = report[off_FieldId := fieldId];
          report = report[off_Index := index]
      in store off_Value (bytes_of_16 bo value) report)"

definition CreateFloatSettingsReport ::
  "wheel_api_h \<Rightarrow> byte_order \<Rightarrow> byte list \<Rightarrow> 8 word \<Rightarrow> 8 word \<Rightarrow> float32 \<Rightarrow> byte list" where
  "CreateFloatSettingsReport hdr bo report fieldId index value =
     (let report = report[off_ReportId := REPORT_GENERIC_INPUT_OUTPUT hdr];
          report = report[off_ReportData := DATA_SETTINGS_FIELD_DATA hdr];
          report = report[off_FieldId := fieldId];
          report = report[off_Index := index]
      in store off_Value (bytes_of_32 bo value) report)"

text \<open>
  The sending methods take \<^verbatim>\<open>SettingsFieldEnum field, int8_t index\<close> and pass them to
  parameters of type \<^verbatim>\<open>uint8_t\<close>. \<^verbatim>\<open>sendInt16SettingReport\<close> calls
  \<^verbatim>\<open>CreateUInt16SettingsReport\<close>, whose last parameter is \<^verbatim>\<open>uint16_t\<close>.
\<close>

definition sendInt8SettingReport ::
  "wheel_api_h \<Rightarrow> hidapi \<Rightarrow> wheel_state \<Rightarrow> SettingsFieldEnum \<Rightarrow> 8 word \<Rightarrow> 8 word \<Rightarrow> int \<times> wheel_state" where
  "sendInt8SettingReport hdr api s field index data =
     (case handle s of
        Some h \<Rightarrow>
          (let genericReport = zero_report;
               genericReport = CreateInt8SettingsReport hdr genericReport
                                 (enum_to_uint8 field) (int8_to_uint8 index) data
           in write_report api s h genericReport)
      | None \<Rightarrow> (0, s))"

definition sendInt16SettingReport ::
  "wheel_api_h \<Rightarrow> byte_order \<Rightarrow> hidapi \<Rightarrow> wheel_state \<Rightarrow> SettingsFieldEnum \<Rightarrow> 8 word \<Rightarrow> 16 word \<Rightarrow> int \<times> wheel_state" where
  "sendInt16SettingReport hdr bo api s field index data =
     (case handle s of
        Some h \<Rightarrow>
          (let genericReport = zero_report;
               genericReport = CreateUInt16SettingsReport hdr bo genericReport
                                 (enum_to_uint8 field) (int8_to_uint8 index) (int16_to_uint16 data)
           in write_report api s h genericReport)
      | None \<Rightarrow> (0, s))"

definition sendUInt8SettingReport ::
  "wheel_api_h \<Rightarrow> hidapi \<Rightarrow> wheel_state \<Rightarrow> SettingsFieldEnum \<Rightarrow> 8 word \<Rightarrow> 8 word \<Rightarrow> int \<times> wheel_state" where
  "sendUInt8SettingReport hdr api s field index data =
     (case handle s of
        Some h \<Rightarrow>
          (let genericReport = zero_report;
               genericReport = CreateUInt8SettingsReport hdr genericReport
                                 (enum_to_uint8 field) (int8_to_uint8 index) data
           in write_report api s h genericReport)
      | None \<Rightarrow> (0, s))"

definition sendUInt16SettingReport ::
  "wheel_api_h \<Rightarrow> byte_order \<Rightarrow> hidapi \<Rightarrow> wheel_state \<Rightarrow> SettingsFieldEnum \<Rightarrow> 8 word \<Rightarrow> 16 word \<Rightarrow> int \<times> wheel_state" where
  "sendUInt16SettingReport hdr bo api s field index data =
     (case handle s of
        Some h \<Rightarrow>
          (let genericReport = zero_report;
               genericReport = CreateUInt16SettingsReport hdr bo genericReport
                                 (enum_to_uint8 field) (int8_to_uint8 index) data
           in write_report api s h genericReport)
      | None \<Rightarrow> (0, s))"

definition sendFloatSettingReport ::
  "wheel_api_h \<Rightarrow> byte_order \<Rightarrow> hidapi \<Rightarrow> wheel_state \<Rightarrow> SettingsFieldEnum \<Rightarrow> 8 word \<Rightarrow> float32 \<Rightarrow> int \<times> wheel_state" where
  "sendFloatSettingReport hdr bo api s field index data =
     (case handle s of
        Some h \<Rightarrow>
          (let genericReport = zero_report;
               genericReport = CreateFloatSettingsReport hdr bo genericReport
                                 (enum_to_uint8 field) (int8_to_uint8 index) data
           in write_report api s h genericReport)
      | None \<Rightarrow> (0, s))"

subsection \<open>Families of methods\<close>

text \<open>
  The five encoders as one function of a tagged value, to state what they share once.
\<close>

datatype setting_value =
    Int8Value "8 word"
  | Int16Value "16 word"
  | UInt8Value "8 word"
  | UInt16Value "16 word"
  | FloatValue float32

fun CreateSettingsReport ::
  "wheel_api_h \<Rightarrow> byte_order \<Rightarrow> byte list \<Rightarrow> 8 word \<Rightarrow> 8 word \<Rightarrow> setting_value \<Rightarrow> byte list" where
  "CreateSettingsReport hdr bo report fieldId index (Int8Value v) =
     CreateInt8SettingsReport hdr report fieldId index v"
| "CreateSettingsReport hdr bo report fieldId index (Int16Value v) =
     CreateInt16SettingsReport hdr bo report fieldId index v"
| "CreateSettingsReport hdr bo report fieldId index (UInt8Value v) =
     CreateUInt8SettingsReport hdr report fieldId index v"
| "CreateSettingsReport hdr bo report fieldId index (UInt16Value v) =
     CreateUInt16SettingsReport hdr bo report fieldId index v"
| "CreateSettingsReport hdr bo report fieldId index (FloatValue v) =
     CreateFloatSettingsReport hdr bo report fieldId index v"

text \<open>The four commands without a body, each with the discriminator it stores.\<close>

definition no_body_commands ::
  "((wheel_api_h \<Rightarrow> hidapi \<Rightarrow> wheel_state \<Rightarrow> int \<times> wheel_state) \<times> (wheel_api_h \<Rightarrow> byte)) list" where
  "no_body_commands =
     [(saveAndReboot, DATA_COMMAND_SAVE_SETTINGS),
      (rebootController, DATA_COMMAND_REBOOT),
      (switchtoDfu, DATA_COMMAND_DFU_MODE),
      (resetCenter, DATA_COMMAND_RESET_CENTER)]"

text \<open>The four settings reads, each with the report identifier it requests.\<close>

definition settings_reads ::
  "((wheel_api_h \<Rightarrow> hidapi \<Rightarrow> (nat \<Rightarrow> byte) \<Rightarrow> wheel_state \<Rightarrow> byte list
       \<Rightarrow> int \<times> byte list \<times> wheel_state) \<times> (wheel_api_h \<Rightarrow> byte)) list" where
  "settings_reads =
     [(readEffectSettings, REPORT_EFFECT_SETTINGS_FEATURE),
      (readHardwareSettings, REPORT_HARDWARE_SETTINGS_FEATURE),
      (readGpioExtensionSettings, REPORT_GPIO_SETTINGS_FEATURE),
      (readAdcExtensionSettings, REPORT_ADC_SETTINGS_FEATURE)]"

text \<open>The five sending methods as one function of a tagged value.\<close>

fun sendSettingReport ::
  "wheel_api_h \<Rightarrow> byte_order \<Rightarrow> hidapi \<Rightarrow> wheel_state \<Rightarrow> SettingsFieldEnum \<Rightarrow> 8 word \<Rightarrow> setting_value
     \<Rightarrow> int \<times> wheel_state" where
  "sendSettingReport hdr bo api s field index (Int8Value data) =
     sendInt8SettingReport hdr api s field index data"
| "sendSettingReport hdr bo api s field index (Int16Value data) =
     sendInt16SettingReport hdr bo api s field index data"
| "sendSettingReport hdr bo api s field index (UInt8Value data) =
     sendUInt8SettingReport hdr api s field index data"
| "sendSettingReport hdr bo api s field index (UInt16Value data) =
     sendUInt16SettingReport hdr bo api s field index data"
| "sendSettingReport hdr bo api s field index (FloatValue data) =
     sendFloatSettingReport hdr bo api s field index data"

text \<open>What the five encoders share: four single-byte stores, then the value at offset 4.\<close>

definition field_frame :: "byte list \<Rightarrow> byte \<Rightarrow> byte \<Rightarrow> byte \<Rightarrow> byte \<Rightarrow> byte list \<Rightarrow> byte list" where
  "field_frame report a b F I src = store 4 src (report[0 := a, 1 := b, 2 := F, 3 := I])"

subsection \<open>Sample parameters\<close>

text \<open>
  One assignment of the header's enumerators and three transports, on which the model is
  run below. The numbers are samples; the theorems hold for every assignment.
\<close>

definition sample_header :: wheel_api_h where
  "sample_header =
     \<lparr>USB_VID = 0x1209, WHEEL_PID_FS = 0x000A,
      REPORT_GENERIC_INPUT_OUTPUT = 0xA3,
      REPORT_EFFECT_SETTINGS_FEATURE = 0x22,
      REPORT_HARDWARE_SETTINGS_FEATURE = 0x21,
      REPORT_GPIO_SETTINGS_FEATURE = 0xA1,
      REPORT_ADC_SETTINGS_FEATURE = 0xA2,
      DATA_COMMAND_SAVE_SETTINGS = 0x02,
      DATA_COMMAND_REBOOT = 0x01,
      DATA_COMMAND_DFU_MODE = 0x03,
      DATA_COMMAND_RESET_CENTER = 0x04,
      DATA_OVERRIDE_DATA = 0x10,
      DATA_SETTINGS_FIELD_DATA = 0x14\<rparr>"

text \<open>
  A device with three interfaces, the second and third numbered 0. Every call succeeds:
  a write reports its length, a read delivers the identifier followed by 1, 2, 3, ...
\<close>

definition sample_api :: hidapi where
  "sample_api =
     \<lparr>hid_enumerate = (\<lambda>cs vid pid.
        [\<lparr>path = ''usb:1'', interface_number = 1\<rparr>,
         \<lparr>path = ''usb:0'', interface_number = 0\<rparr>,
         \<lparr>path = ''usb:0b'', interface_number = 0\<rparr>]),
      hid_open_path = (\<lambda>cs p. Some 7),
      hid_write = (\<lambda>cs h buf n. int n),
      hid_read_timeout = (\<lambda>cs h n ms. (4, [1, 11, 12, 13])),
      hid_get_feature_report = (\<lambda>cs h rid n. (int n, rid # map of_nat [1..<n]))\<rparr>"

text \<open>The same device when \<^verbatim>\<open>hid_open_path\<close> fails and returns \<^verbatim>\<open>nullptr\<close>.\<close>

definition sample_api_open_fails :: hidapi where
  "sample_api_open_fails = sample_api\<lparr>hid_open_path := (\<lambda>cs p. None)\<rparr>"

text \<open>
  The same device when every read fails with -1, after the transport has already stored
  bytes in the buffer.
\<close>

definition sample_api_read_fails :: hidapi where
  "sample_api_read_fails =
     sample_api\<lparr>hid_read_timeout := (\<lambda>cs h n ms. (- 1, [1, 11, 12, 13])),
                hid_get_feature_report := (\<lambda>cs h rid n. (- 1, rid # map of_nat [1..<n]))\<rparr>"

definition connected :: wheel_state where
  "connected = \<lparr>handle = Some 7, calls = []\<rparr>"

definition disconnected :: wheel_state where
  "disconnected = \<lparr>handle = None, calls = []\<rparr>"

section \<open>Properties\<close>

lemmas layout_defs = off_ReportId_def off_ReportData_def off_DataBuffer_def off_FieldId_def
  off_Index_def off_Value_def sizeof_HidInOutReportTypeDef_def zero_report_def

lemmas command_defs = saveAndReboot_def rebootController_def switchtoDfu_def resetCenter_def

lemmas create_defs = CreateInt8SettingsReport_def CreateInt16SettingsReport_def
  CreateUInt8SettingsReport_def CreateUInt16SettingsReport_def CreateFloatSettingsReport_def

lemmas send_defs = sendInt8SettingReport_def sendInt16SettingReport_def sendUInt8SettingReport_def
  sendUInt16SettingReport_def sendFloatSettingReport_def

lemmas read_defs = readEffectSettings_def readHardwareSettings_def readGpioExtensionSettings_def
  readAdcExtensionSettings_def

subsection \<open>Frames of the commands without a body\<close>

lemma command_frame_shape:
  fixes fr :: "byte list"
  assumes "fr = (replicate 65 0)[0 := a, Suc 0 := d]"
  shows "length fr = 65 \<and> fr ! 0 = a \<and> fr ! 1 = d \<and> (\<forall>i. 2 \<le> i \<and> i < 65 \<longrightarrow> fr ! i = 0)"
  using assms by (simp add: nth_list_update)

lemma command_frames_agree:
  fixes a d d' :: byte
  shows "\<forall>i<65. i \<noteq> 1 \<longrightarrow>
           (replicate 65 0)[0 := a, Suc 0 := d] ! i = (replicate 65 0)[0 := a, Suc 0 := d'] ! i"
  by (simp add: nth_list_update)

lemma no_body_command_sends:
  assumes "handle s = Some h" and "(cmd, disc) \<in> set no_body_commands"
  shows "cmd hdr api s =
           write_report api s h
             ((replicate 65 0)[0 := REPORT_GENERIC_INPUT_OUTPUT hdr, Suc 0 := disc hdr])"
  using assms by (auto simp add: no_body_commands_def command_defs layout_defs)

text \<open>
  Claim C5. On a live handle each of \<^verbatim>\<open>saveAndReboot\<close>, \<^verbatim>\<open>rebootController\<close>,
  \<^verbatim>\<open>switchtoDfu\<close> and \<^verbatim>\<open>resetCenter\<close> makes one transport call, a write of a 65-byte
  frame whose byte 0 is the generic input/output identifier, whose byte 1 is the
  discriminator of the command and whose bytes 2 to 64 are zero; the frames of any two of
  the four commands agree at every offset other than 1.
\<close>

theorem no_body_command_frames:
  assumes "handle s = Some h"
    and "(cmd, disc) \<in> set no_body_commands"
    and "(cmd', disc') \<in> set no_body_commands"
  shows "\<exists>fr fr'.
           calls (snd (cmd hdr api s)) = calls s @ [HidWrite h fr 65] \<and>
           calls (snd (cmd' hdr api s)) = calls s @ [HidWrite h fr' 65] \<and>
           length fr = 65 \<and>
           fr ! 0 = REPORT_GENERIC_INPUT_OUTPUT hdr \<and>
           fr ! 1 = disc hdr \<and>
           (\<forall>i. 2 \<le> i \<and> i < 65 \<longrightarrow> fr ! i = 0) \<and>
           (\<forall>i<65. i \<noteq> 1 \<longrightarrow> fr ! i = fr' ! i)"
proof -
  let ?fr = "(replicate 65 0)[0 := REPORT_GENERIC_INPUT_OUTPUT hdr, Suc 0 := disc hdr]"
  let ?fr' = "(replicate 65 0)[0 := REPORT_GENERIC_INPUT_OUTPUT hdr, Suc 0 := disc' hdr]"
  have 1: "calls (snd (cmd hdr api s)) = calls s @ [HidWrite h ?fr 65]"
    by (simp add: no_body_command_sends [OF assms(1,2)] write_report_def)
  have 2: "calls (snd (cmd' hdr api s)) = calls s @ [HidWrite h ?fr' 65]"
    by (simp add: no_body_command_sends [OF assms(1,3)] write_report_def)
  have 3: "length ?fr = 65 \<and> ?fr ! 0 = REPORT_GENERIC_INPUT_OUTPUT hdr \<and> ?fr ! 1 = disc hdr \<and>
           (\<forall>i. 2 \<le> i \<and> i < 65 \<longrightarrow> ?fr ! i = 0)"
    by (rule command_frame_shape) simp
  have 4: "\<forall>i<65. i \<noteq> 1 \<longrightarrow> ?fr ! i = ?fr' ! i"
    by (rule command_frames_agree)
  from 1 2 3 4 show ?thesis by blast
qed

theorem no_body_command_frames_witness:
  "\<exists>fr fr'.
     calls (snd (saveAndReboot sample_header sample_api connected)) = [HidWrite 7 fr 65] \<and>
     calls (snd (resetCenter sample_header sample_api connected)) = [HidWrite 7 fr' 65] \<and>
     length fr = 65 \<and> fr ! 0 = 0xA3 \<and> fr ! 1 = 0x02 \<and>
     (\<forall>i. 2 \<le> i \<and> i < 65 \<longrightarrow> fr ! i = 0) \<and>
     (\<forall>i<65. i \<noteq> 1 \<longrightarrow> fr ! i = fr' ! i)"
  using no_body_command_frames [of connected 7 saveAndReboot DATA_COMMAND_SAVE_SETTINGS
      resetCenter DATA_COMMAND_RESET_CENTER sample_header sample_api]
  by (simp add: connected_def no_body_commands_def sample_header_def)

subsection \<open>Operations without a connection\<close>

text \<open>
  Claim C3. With no handle each of the fifteen operations returns 0 and leaves the state
  as it was, the record of transport calls included, so no primitive of the transport is
  invoked; a read also leaves the destination as it was.
\<close>

theorem not_connected_no_effect:
  assumes "handle s = None"
  shows "saveAndReboot hdr api s = (0, s)
    \<and> rebootController hdr api s = (0, s)
    \<and> switchtoDfu hdr api s = (0, s)
    \<and> resetCenter hdr api s = (0, s)
    \<and> sendInt8SettingReport hdr api s field index d8 = (0, s)
    \<and> sendInt16SettingReport hdr bo api s field index d16 = (0, s)
    \<and> sendUInt8SettingReport hdr api s field index d8 = (0, s)
    \<and> sendUInt16SettingReport hdr bo api s field index d16 = (0, s)
    \<and> sendFloatSettingReport hdr bo api s field index d32 = (0, s)
    \<and> sendDirectControl hdr api s control = Some (0, s)
    \<and> readEffectSettings hdr api indet s destination = (0, destination, s)
    \<and> readHardwareSettings hdr api indet s destination = (0, destination, s)
    \<and> readGpioExtensionSettings hdr api indet s destination = (0, destination, s)
    \<and> readAdcExtensionSettings hdr api indet s destination = (0, destination, s)
    \<and> readState api indet s destination = Some (0, destination, s)"
  using assms
  by (simp add: command_defs send_defs read_defs readState_def sendDirectControl_def)

theorem not_connected_no_effect_witness:
  "handle disconnected = None
    \<and> saveAndReboot sample_header sample_api disconnected = (0, disconnected)
    \<and> rebootController sample_header sample_api disconnected = (0, disconnected)
    \<and> switchtoDfu sample_header sample_api disconnected = (0, disconnected)
    \<and> resetCenter sample_header sample_api disconnected = (0, disconnected)
    \<and> sendInt8SettingReport sample_header sample_api disconnected 5 (- 1) 9 = (0, disconnected)
    \<and> sendInt16SettingReport sample_header LittleEndian sample_api disconnected 5 (- 1) 300
        = (0, disconnected)
    \<and> sendUInt8SettingReport sample_header sample_api disconnected 5 (- 1) 9 = (0, disconnected)
    \<and> sendUInt16SettingReport sample_header LittleEndian sample_api disconnected 5 (- 1) 300
        = (0, disconnected)
    \<and> sendFloatSettingReport sample_header LittleEndian sample_api disconnected 5 (- 1) 0x3F800000
        = (0, disconnected)
    \<and> sendDirectControl sample_header sample_api disconnected [1, 2, 3] = Some (0, disconnected)
    \<and> readEffectSettings sample_header sample_api (\<lambda>i. 0) disconnected [8, 9]
        = (0, [8, 9], disconnected)
    \<and> readHardwareSettings sample_header sample_api (\<lambda>i. 0) disconnected [8, 9]
        = (0, [8, 9], disconnected)
    \<and> readGpioExtensionSettings sample_header sample_api (\<lambda>i. 0) disconnected [8, 9]
        = (0, [8, 9], disconnected)
    \<and> readAdcExtensionSettings sample_header sample_api (\<lambda>i. 0) disconnected [8, 9]
        = (0, [8, 9], disconnected)
    \<and> readState sample_api (\<lambda>i. 0) disconnected [8, 9] = Some (0, [8, 9], disconnected)"
proof -
  have h: "handle disconnected = None"
    by (simp add: disconnected_def)
  show ?thesis
    using h not_connected_no_effect [OF h, of sample_header sample_api 5 "- 1" 9 LittleEndian 300
        "0x3F800000" "[1, 2, 3]" "\<lambda>i. 0" "[8, 9]"]
    by simp
qed

subsection \<open>The signed 16-bit path\<close>

lemma int8_to_uint8_same_bits: "int8_to_uint8 v = v"
  by (simp add: int8_to_uint8_def)

lemma int16_to_uint16_same_bits: "int16_to_uint16 v = v"
  by (simp add: int16_to_uint16_def)

lemma uint_of_sint16: "uint (word_of_int (sint v) :: 16 word) = sint (v :: 16 word) mod 2 ^ 16"
proof -
  have "uint (word_of_int (sint v) :: 16 word) = sint v mod 2 ^ LENGTH(16)"
    by (simp only: uint_word_of_int)
  then show ?thesis by (simp only: len_bit0 len_num1) simp
qed

text \<open>
  Claim C6. For every field, index and 16-bit pattern \<open>v\<close>, \<^verbatim>\<open>sendInt16SettingReport\<close> with
  the signed value \<open>v\<close> does exactly what \<^verbatim>\<open>sendUInt16SettingReport\<close> does with the unsigned
  value of the same bit pattern, which is \<open>sint v mod 2 ^ 16\<close>: same result, same frame
  written. \<^verbatim>\<open>CreateInt16SettingsReport\<close> and \<^verbatim>\<open>CreateUInt16SettingsReport\<close> produce the
  same frame from the same report for these two values.
\<close>

theorem int16_path_is_uint16_encoder:
  "sendInt16SettingReport hdr bo api s field index v =
     sendUInt16SettingReport hdr bo api s field index (word_of_int (sint v))
   \<and> CreateInt16SettingsReport hdr bo report fieldId idx v =
     CreateUInt16SettingsReport hdr bo report fieldId idx (word_of_int (sint v))
   \<and> uint (word_of_int (sint v) :: 16 word) = sint v mod 2 ^ 16"
proof (intro conjI)
  have same: "(word_of_int (sint v) :: 16 word) = v"
    by simp
  show "sendInt16SettingReport hdr bo api s field index v =
     sendUInt16SettingReport hdr bo api s field index (word_of_int (sint v))"
    unfolding sendInt16SettingReport_def sendUInt16SettingReport_def int16_to_uint16_def same ..
  show "CreateInt16SettingsReport hdr bo report fieldId idx v =
     CreateUInt16SettingsReport hdr bo report fieldId idx (word_of_int (sint v))"
    unfolding CreateInt16SettingsReport_def CreateUInt16SettingsReport_def same ..
  show "uint (word_of_int (sint v) :: 16 word) = sint v mod 2 ^ 16"
    by (rule uint_of_sint16)
qed

subsection \<open>Typed setting reports: encode, then read back\<close>

lemma length_store:
  "off + length src \<le> length buf \<Longrightarrow> length (store off src buf) = length buf"
  by (simp add: store_def)

lemma nth_store_before:
  "i < off \<Longrightarrow> off \<le> length buf \<Longrightarrow> store off src buf ! i = buf ! i"
  by (simp add: store_def nth_append)

lemma nth_store_inside:
  "off \<le> length buf \<Longrightarrow> k < length src \<Longrightarrow> store off src buf ! (off + k) = src ! k"
  by (simp add: store_def nth_append)

lemma nth_store_after:
  "off + length src \<le> i \<Longrightarrow> i < length buf \<Longrightarrow> store off src buf ! i = buf ! i"
  by (auto simp add: store_def nth_append)

lemma take_drop_store:
  "off + length src \<le> length buf \<Longrightarrow> take (length src) (drop off (store off src buf)) = src"
  by (simp add: store_def)

lemma field_frame_header:
  assumes "length report = 65" and "length src \<le> 4"
  shows "field_frame report a b F I src ! 2 = F" and "field_frame report a b F I src ! 3 = I"
    and "length (field_frame report a b F I src) = 65"
  using assms by (simp_all add: field_frame_def nth_store_before length_store)

lemma field_frame_value:
  assumes "length report = 65" and "k < length src"
  shows "field_frame report a b F I src ! (4 + k) = src ! k"
  using assms by (simp add: field_frame_def nth_store_inside)

lemma field_frame_index_only:
  assumes "length report = 65" and "length src \<le> 4" and "j < 65" and "j \<noteq> 3"
  shows "field_frame report a b F I src ! j = field_frame report a b F I' src ! j"
proof (cases "j < 4")
  case True
  with assms show ?thesis
    by (simp add: field_frame_def nth_store_before nth_list_update)
next
  case False
  show ?thesis
  proof (cases "j < 4 + length src")
    case True
    with False obtain k where "j = 4 + k" "k < length src"
      by (metis add_diff_inverse_nat nat_add_left_cancel_less)
    with assms show ?thesis by (simp add: field_frame_value)
  next
    case False
    with assms show ?thesis
      by (simp add: field_frame_def nth_store_after nth_list_update)
  qed
qed

lemma Create_field_frame:
  "CreateSettingsReport hdr bo report F I v =
     field_frame report (REPORT_GENERIC_INPUT_OUTPUT hdr) (DATA_SETTINGS_FIELD_DATA hdr) F I
       (case v of Int8Value x \<Rightarrow> [x] | Int16Value x \<Rightarrow> bytes_of_16 bo x | UInt8Value x \<Rightarrow> [x]
        | UInt16Value x \<Rightarrow> bytes_of_16 bo x | FloatValue x \<Rightarrow> bytes_of_32 bo x)"
  by (cases v) (simp_all add: create_defs layout_defs field_frame_def)

lemma value_bytes_length:
  "length (case v of Int8Value x \<Rightarrow> [x] | Int16Value x \<Rightarrow> bytes_of_16 bo x | UInt8Value x \<Rightarrow> [x]
        | UInt16Value x \<Rightarrow> bytes_of_16 bo x | FloatValue x \<Rightarrow> bytes_of_32 bo x) \<le> 4"
  by (cases v; cases bo) simp_all


lemma word16_of_bytes_of_16:
  "word16_of bo (bytes_of_16 bo v ! 0) (bytes_of_16 bo v ! Suc 0) = v"
proof -
  have "ucast (ucast v :: byte) OR push_bit 8 (ucast (ucast (drop_bit 8 v) :: byte)) = v"
    by (rule bit_word_eqI) (auto simp add: bit_simps)
  then show ?thesis by (cases bo) simp_all
qed

lemma join32:
  fixes v :: "32 word"
  shows "ucast (ucast v :: byte) OR push_bit 8 (ucast (ucast (drop_bit 8 v) :: byte))
       OR push_bit 16 (ucast (ucast (drop_bit 16 v) :: byte))
       OR push_bit 24 (ucast (ucast (drop_bit 24 v) :: byte)) = v"
proof (rule bit_word_eqI)
  fix n :: nat
  assume "n < LENGTH(32)"
  then have n: "n < 32" by simp
  consider "n < 8" | "8 \<le> n" "n < 16" | "16 \<le> n" "n < 24" | "24 \<le> n" "n < 32"
    using n by linarith
  then show "bit (ucast (ucast v :: byte) OR push_bit 8 (ucast (ucast (drop_bit 8 v) :: byte))
       OR push_bit 16 (ucast (ucast (drop_bit 16 v) :: byte))
       OR push_bit 24 (ucast (ucast (drop_bit 24 v) :: byte)) :: 32 word) n = bit v n"
    by cases (auto simp add: bit_simps)
qed

lemma word32_of_bytes_of_32:
  "word32_of bo (bytes_of_32 bo v ! 0) (bytes_of_32 bo v ! Suc 0) (bytes_of_32 bo v ! 2)
     (bytes_of_32 bo v ! 3) = v"
  using join32 [of v] by (cases bo) simp_all

lemma length_bytes_of_16 [simp]: "length (bytes_of_16 bo v) = 2"
  by (cases bo) simp_all

lemma length_bytes_of_32 [simp]: "length (bytes_of_32 bo v) = 4"
  by (cases bo) simp_all

lemma load_field_frame:
  assumes "length report = 65" and "length src \<le> 4"
  shows "load_u8 off_FieldId (field_frame report a b F I src) = F"
    and "load_u8 off_Index (field_frame report a b F I src) = I"
  using field_frame_header [OF assms] by (simp_all add: load_u8_def layout_defs)

lemma load_value_8:
  assumes "length report = 65"
  shows "load_u8 off_Value (field_frame report a b F I [v]) = v"
  using field_frame_value [OF assms, of 0 "[v]"] by (simp add: load_u8_def layout_defs)

lemma load_value_16:
  assumes "length report = 65"
  shows "load_16 bo off_Value (field_frame report a b F I (bytes_of_16 bo v)) = v"
  using field_frame_value [OF assms, of 0 "bytes_of_16 bo v"]
    field_frame_value [OF assms, of 1 "bytes_of_16 bo v"]
  by (simp add: load_16_def layout_defs word16_of_bytes_of_16)

lemma load_value_32:
  assumes "length report = 65"
  shows "load_32 bo off_Value (field_frame report a b F I (bytes_of_32 bo v)) = v"
  using field_frame_value [OF assms, of 0 "bytes_of_32 bo v"]
    field_frame_value [OF assms, of 1 "bytes_of_32 bo v"]
    field_frame_value [OF assms, of 2 "bytes_of_32 bo v"]
    field_frame_value [OF assms, of 3 "bytes_of_32 bo v"]
  by (simp add: load_32_def layout_defs word32_of_bytes_of_32)

text \<open>
  Claim C4. For each of the five typed encoders, applied to a 65-byte report with field
  identifier \<open>F\<close>, index \<open>I\<close> and a value of its type, reading the frame back through the
  Field Data layout (byte 2, byte 3, and the value from byte 4 on in the byte order it was
  written with) gives \<open>F\<close>, \<open>I\<close> and the value again. A \<^verbatim>\<open>float\<close> is its 32-bit
  object representation, so the value is recovered bit for bit.
\<close>

theorem typed_setting_round_trip:
  assumes "length report = 65"
  shows "(load_u8 off_FieldId (CreateInt8SettingsReport hdr report F I x) = F
        \<and> load_u8 off_Index (CreateInt8SettingsReport hdr report F I x) = I
        \<and> load_u8 off_Value (CreateInt8SettingsReport hdr report F I x) = x)
    \<and> (load_u8 off_FieldId (CreateInt16SettingsReport hdr bo report F I y) = F
        \<and> load_u8 off_Index (CreateInt16SettingsReport hdr bo report F I y) = I
        \<and> load_16 bo off_Value (CreateInt16SettingsReport hdr bo report F I y) = y)
    \<and> (load_u8 off_FieldId (CreateUInt8SettingsReport hdr report F I x) = F
        \<and> load_u8 off_Index (CreateUInt8SettingsReport hdr report F I x) = I
        \<and> load_u8 off_Value (CreateUInt8SettingsReport hdr report F I x) = x)
    \<and> (load_u8 off_FieldId (CreateUInt16SettingsReport hdr bo report F I y) = F
        \<and> load_u8 off_Index (CreateUInt16SettingsReport hdr bo report F I y) = I
        \<and> load_16 bo off_Value (CreateUInt16SettingsReport hdr bo report F I y) = y)
    \<and> (load_u8 off_FieldId (CreateFloatSettingsReport hdr bo report F I z) = F
        \<and> load_u8 off_Index (CreateFloatSettingsReport hdr bo report F I z) = I
        \<and> load_32 bo off_Value (CreateFloatSettingsReport hdr bo report F I z) = z)"
proof -
  have i8: "CreateInt8SettingsReport hdr report F I x =
      field_frame report (REPORT_GENERIC_INPUT_OUTPUT hdr) (DATA_SETTINGS_FIELD_DATA hdr) F I [x]"
    using Create_field_frame [of hdr bo report F I "Int8Value x"] by simp
  have u8: "CreateUInt8SettingsReport hdr report F I x =
      field_frame report (REPORT_GENERIC_INPUT_OUTPUT hdr) (DATA_SETTINGS_FIELD_DATA hdr) F I [x]"
    using Create_field_frame [of hdr bo report F I "UInt8Value x"] by simp
  have i16: "CreateInt16SettingsReport hdr bo report F I y =
      field_frame report (REPORT_GENERIC_INPUT_OUTPUT hdr) (DATA_SETTINGS_FIELD_DATA hdr) F I
        (bytes_of_16 bo y)"
    using Create_field_frame [of hdr bo report F I "Int16Value y"] by simp
  have u16: "CreateUInt16SettingsReport hdr bo report F I y =
      field_frame report (REPORT_GENERIC_INPUT_OUTPUT hdr) (DATA_SETTINGS_FIELD_DATA hdr) F I
        (bytes_of_16 bo y)"
    using Create_field_frame [of hdr bo report F I "UInt16Value y"] by simp
  have f32: "CreateFloatSettingsReport hdr bo report F I z =
      field_frame report (REPORT_GENERIC_INPUT_OUTPUT hdr) (DATA_SETTINGS_FIELD_DATA hdr) F I
        (bytes_of_32 bo z)"
    using Create_field_frame [of hdr bo report F I "FloatValue z"] by simp
  show ?thesis
    unfolding i8 u8 i16 u16 f32
    by (simp add: load_field_frame [OF assms] load_value_8 [OF assms] load_value_16 [OF assms]
        load_value_32 [OF assms])
qed

theorem typed_setting_round_trip_witness:
  "length zero_report = 65
    \<and> load_u8 off_FieldId (CreateInt8SettingsReport sample_header zero_report 5 2 (- 3)) = 5
    \<and> load_u8 off_Index (CreateInt8SettingsReport sample_header zero_report 5 2 (- 3)) = 2
    \<and> sint (load_u8 off_Value (CreateInt8SettingsReport sample_header zero_report 5 2 (- 3))) = - 3
    \<and> load_16 BigEndian off_Value
         (CreateInt16SettingsReport sample_header BigEndian zero_report 5 2 (- 300)) = - 300
    \<and> load_u8 off_Value (CreateUInt8SettingsReport sample_header zero_report 5 2 200) = 200
    \<and> load_16 LittleEndian off_Value
         (CreateUInt16SettingsReport sample_header LittleEndian zero_report 5 2 30000) = 30000
    \<and> load_32 LittleEndian off_Value
         (CreateFloatSettingsReport sample_header LittleEndian zero_report 5 2 0x3F800000)
        = 0x3F800000"
proof -
  have len: "length zero_report = 65"
    by (simp add: layout_defs)
  show ?thesis
    using len
      typed_setting_round_trip [OF len, where hdr = sample_header and F = 5 and I = 2
        and x = "- 3" and bo = BigEndian and y = "- 300" and z = "0x3F800000"]
      typed_setting_round_trip [OF len, where hdr = sample_header and F = 5 and I = 2
        and x = 200 and bo = LittleEndian and y = 30000 and z = "0x3F800000"]
    by simp
qed


subsection \<open>The index byte\<close>

lemma send_field_frame:
  assumes "handle s = Some h"
  shows "sendSettingReport hdr bo api s field i v =
           write_report api s h
             (field_frame zero_report (REPORT_GENERIC_INPUT_OUTPUT hdr) (DATA_SETTINGS_FIELD_DATA hdr)
                (enum_to_uint8 field) i ((case v of Int8Value x \<Rightarrow> [x] | Int16Value x \<Rightarrow> bytes_of_16 bo x
                 | UInt8Value x \<Rightarrow> [x] | UInt16Value x \<Rightarrow> bytes_of_16 bo x
                 | FloatValue x \<Rightarrow> bytes_of_32 bo x)))"
proof (cases v)
  case (Int8Value x)
  then show ?thesis
    using Create_field_frame [of hdr bo zero_report "enum_to_uint8 field" i "Int8Value x"]
    by (simp add: sendInt8SettingReport_def assms int8_to_uint8_same_bits)
next
  case (Int16Value x)
  then show ?thesis
    using Create_field_frame [of hdr bo zero_report "enum_to_uint8 field" i "UInt16Value x"]
    by (simp add: sendInt16SettingReport_def assms int8_to_uint8_same_bits
        int16_to_uint16_same_bits)
next
  case (UInt8Value x)
  then show ?thesis
    using Create_field_frame [of hdr bo zero_report "enum_to_uint8 field" i "UInt8Value x"]
    by (simp add: sendUInt8SettingReport_def assms int8_to_uint8_same_bits)
next
  case (UInt16Value x)
  then show ?thesis
    using Create_field_frame [of hdr bo zero_report "enum_to_uint8 field" i "UInt16Value x"]
    by (simp add: sendUInt16SettingReport_def assms int8_to_uint8_same_bits)
next
  case (FloatValue x)
  then show ?thesis
    using Create_field_frame [of hdr bo zero_report "enum_to_uint8 field" i "FloatValue x"]
    by (simp add: sendFloatSettingReport_def assms int8_to_uint8_same_bits)
qed

lemma length_zero_report: "length zero_report = 65"
  by (simp add: layout_defs)

text \<open>
  Claim C9. Whatever the type of the value, the frame a sending method writes for the
  signed 8-bit index \<open>i\<close> carries at offset 3 the two's-complement pattern of \<open>i\<close>, which
  read as a signed byte is \<open>i\<close> again; the field identifier is at offset 2; and the frame
  agrees at every offset other than 3 with the frame written for any other index \<open>i'\<close>.
  This holds for every \<open>i\<close>, the extremes -128, -1, 0 and 127 among them: -1 is stored as
  0xFF and -128 as 0x80.
\<close>

theorem index_byte_isolated:
  assumes "handle s = Some h"
  shows "\<exists>fr fr'.
           snd (sendSettingReport hdr bo api s field i v) = s\<lparr>calls := calls s @ [HidWrite h fr 65]\<rparr> \<and>
           snd (sendSettingReport hdr bo api s field i' v) = s\<lparr>calls := calls s @ [HidWrite h fr' 65]\<rparr> \<and>
           length fr = 65 \<and>
           fr ! 3 = word_of_int (sint i) \<and>
           sint (load_u8 off_Index fr) = sint i \<and>
           load_u8 off_FieldId fr = enum_to_uint8 field \<and>
           (\<forall>j<65. j \<noteq> 3 \<longrightarrow> fr ! j = fr' ! j)"
proof -
  let ?a = "REPORT_GENERIC_INPUT_OUTPUT hdr" and ?b = "DATA_SETTINGS_FIELD_DATA hdr"
  let ?fr = "field_frame zero_report ?a ?b (enum_to_uint8 field) i ((case v of Int8Value x \<Rightarrow> [x] | Int16Value x \<Rightarrow> bytes_of_16 bo x
                 | UInt8Value x \<Rightarrow> [x] | UInt16Value x \<Rightarrow> bytes_of_16 bo x
                 | FloatValue x \<Rightarrow> bytes_of_32 bo x))"
  let ?fr' = "field_frame zero_report ?a ?b (enum_to_uint8 field) i' ((case v of Int8Value x \<Rightarrow> [x] | Int16Value x \<Rightarrow> bytes_of_16 bo x
                 | UInt8Value x \<Rightarrow> [x] | UInt16Value x \<Rightarrow> bytes_of_16 bo x
                 | FloatValue x \<Rightarrow> bytes_of_32 bo x))"
  note len = length_zero_report
  note vl = value_bytes_length [where v = v and bo = bo]
  have 1: "snd (sendSettingReport hdr bo api s field i v) = s\<lparr>calls := calls s @ [HidWrite h ?fr 65]\<rparr>"
    by (simp add: send_field_frame [OF assms] write_report_def)
  have 2: "snd (sendSettingReport hdr bo api s field i' v) = s\<lparr>calls := calls s @ [HidWrite h ?fr' 65]\<rparr>"
    by (simp add: send_field_frame [OF assms] write_report_def)
  have 3: "length ?fr = 65"
    by (rule field_frame_header [OF len vl])
  have 4: "?fr ! 3 = word_of_int (sint i)"
    by (simp add: field_frame_header [OF len vl])
  have 5: "sint (load_u8 off_Index ?fr) = sint i"
    by (simp add: load_field_frame [OF len vl])
  have 6: "load_u8 off_FieldId ?fr = enum_to_uint8 field"
    by (simp add: load_field_frame [OF len vl])
  have 7: "\<forall>j<65. j \<noteq> 3 \<longrightarrow> ?fr ! j = ?fr' ! j"
    using field_frame_index_only [OF len vl] by blast
  from 1 2 3 4 5 6 7 show ?thesis by blast
qed

theorem index_byte_isolated_witness:
  "handle connected = Some 7 \<and>
   (\<exists>fr fr'.
      snd (sendSettingReport sample_header LittleEndian sample_api connected 5 (- 1) (UInt16Value 30000))
        = connected\<lparr>calls := [HidWrite 7 fr 65]\<rparr> \<and>
      snd (sendSettingReport sample_header LittleEndian sample_api connected 5 127 (UInt16Value 30000))
        = connected\<lparr>calls := [HidWrite 7 fr' 65]\<rparr> \<and>
      fr ! 3 = 0xFF \<and> sint (load_u8 off_Index fr) = - 1 \<and>
      (\<forall>j<65. j \<noteq> 3 \<longrightarrow> fr ! j = fr' ! j)) \<and>
   (\<exists>fr fr'.
      snd (sendSettingReport sample_header LittleEndian sample_api connected 5 (- 128) (Int8Value 9))
        = connected\<lparr>calls := [HidWrite 7 fr 65]\<rparr> \<and>
      snd (sendSettingReport sample_header LittleEndian sample_api connected 5 0 (Int8Value 9))
        = connected\<lparr>calls := [HidWrite 7 fr' 65]\<rparr> \<and>
      fr ! 3 = 0x80 \<and> sint (load_u8 off_Index fr) = - 128 \<and>
      (\<forall>j<65. j \<noteq> 3 \<longrightarrow> fr ! j = fr' ! j))"
proof -
  have h: "handle connected = Some 7" and c: "calls connected = []"
    by (simp_all add: connected_def)
  have "\<exists>fr fr'.
      snd (sendSettingReport sample_header LittleEndian sample_api connected 5 (- 1) (UInt16Value 30000))
        = connected\<lparr>calls := [HidWrite 7 fr 65]\<rparr> \<and>
      snd (sendSettingReport sample_header LittleEndian sample_api connected 5 127 (UInt16Value 30000))
        = connected\<lparr>calls := [HidWrite 7 fr' 65]\<rparr> \<and>
      fr ! 3 = 0xFF \<and> sint (load_u8 off_Index fr) = - 1 \<and>
      (\<forall>j<65. j \<noteq> 3 \<longrightarrow> fr ! j = fr' ! j)"
  proof -
    from index_byte_isolated [OF h, of sample_header LittleEndian sample_api 5 "- 1"
        "UInt16Value 30000" 127]
    obtain fr fr' where
      "snd (sendSettingReport sample_header LittleEndian sample_api connected 5 (- 1) (UInt16Value 30000))
        = connected\<lparr>calls := [HidWrite 7 fr 65]\<rparr>"
      "snd (sendSettingReport sample_header LittleEndian sample_api connected 5 127 (UInt16Value 30000))
        = connected\<lparr>calls := [HidWrite 7 fr' 65]\<rparr>"
      "fr ! 3 = word_of_int (sint (- 1 :: 8 word))"
      "sint (load_u8 off_Index fr) = sint (- 1 :: 8 word)"
      "\<forall>j<65. j \<noteq> 3 \<longrightarrow> fr ! j = fr' ! j"
      unfolding c by auto
    moreover have "word_of_int (sint (- 1 :: 8 word)) = (0xFF :: 8 word)"
      and "sint (- 1 :: 8 word) = - 1"
      by simp_all
    ultimately show ?thesis by metis
  qed
  moreover have "\<exists>fr fr'.
      snd (sendSettingReport sample_header LittleEndian sample_api connected 5 (- 128) (Int8Value 9))
        = connected\<lparr>calls := [HidWrite 7 fr 65]\<rparr> \<and>
      snd (sendSettingReport sample_header LittleEndian sample_api connected 5 0 (Int8Value 9))
        = connected\<lparr>calls := [HidWrite 7 fr' 65]\<rparr> \<and>
      fr ! 3 = 0x80 \<and> sint (load_u8 off_Index fr) = - 128 \<and>
      (\<forall>j<65. j \<noteq> 3 \<longrightarrow> fr ! j = fr' ! j)"
  proof -
    from index_byte_isolated [OF h, of sample_header LittleEndian sample_api 5 "- 128"
        "Int8Value 9" 0]
    obtain fr fr' where
      "snd (sendSettingReport sample_header LittleEndian sample_api connected 5 (- 128) (Int8Value 9))
        = connected\<lparr>calls := [HidWrite 7 fr 65]\<rparr>"
      "snd (sendSettingReport sample_header LittleEndian sample_api connected 5 0 (Int8Value 9))
        = connected\<lparr>calls := [HidWrite 7 fr' 65]\<rparr>"
      "fr ! 3 = word_of_int (sint (- 128 :: 8 word))"
      "sint (load_u8 off_Index fr) = sint (- 128 :: 8 word)"
      "\<forall>j<65. j \<noteq> 3 \<longrightarrow> fr ! j = fr' ! j"
      unfolding c by auto
    moreover have "word_of_int (sint (- 128 :: 8 word)) = (0x80 :: 8 word)"
      and "sint (- 128 :: 8 word) = - 128"
      by simp_all
    ultimately show ?thesis by metis
  qed
  ultimately show ?thesis using h by blast
qed


subsection \<open>Direct control\<close>

text \<open>
  Claim C8. On a live handle, for a Direct Control structure that fits the body of the
  frame (at most 63 bytes), \<^verbatim>\<open>sendDirectControl\<close> writes one 65-byte frame with the
  generic identifier at offset 0 and \<^verbatim>\<open>DATA_OVERRIDE_DATA\<close> at offset 1, and the
  \<^verbatim>\<open>sizeof(DirectControlTypeDef)\<close> bytes from offset 2 of that frame are the bytes of the
  structure.
\<close>

theorem direct_control_byte_exact:
  assumes "handle s = Some h" and "length control \<le> 63"
  shows "\<exists>fr.
           sendDirectControl hdr api s control =
             Some (hid_write api (calls s) h fr 65, s\<lparr>calls := calls s @ [HidWrite h fr 65]\<rparr>) \<and>
           length fr = 65 \<and>
           fr ! 0 = REPORT_GENERIC_INPUT_OUTPUT hdr \<and>
           fr ! 1 = DATA_OVERRIDE_DATA hdr \<and>
           take (length control) (drop 2 fr) = control"
proof -
  let ?hd = "(replicate 65 0)[0 := REPORT_GENERIC_INPUT_OUTPUT hdr, Suc 0 := DATA_OVERRIDE_DATA hdr]"
  let ?fr = "store 2 control ?hd"
  have fits: "2 + length control \<le> length ?hd"
    using assms(2) by simp
  have 1: "sendDirectControl hdr api s control =
             Some (hid_write api (calls s) h ?fr 65, s\<lparr>calls := calls s @ [HidWrite h ?fr 65]\<rparr>)"
    using assms by (simp add: sendDirectControl_def layout_defs write_report_def Let_def)
  have 2: "length ?fr = 65"
    using length_store [OF fits] by simp
  have 3: "?fr ! 0 = REPORT_GENERIC_INPUT_OUTPUT hdr"
    by (simp add: nth_store_before)
  have 4: "?fr ! 1 = DATA_OVERRIDE_DATA hdr"
    by (simp add: nth_store_before)
  have 5: "take (length control) (drop 2 ?fr) = control"
    by (rule take_drop_store [OF fits])
  from 1 2 3 4 5 show ?thesis by blast
qed

theorem direct_control_byte_exact_witness:
  "handle connected = Some 7 \<and> length [1, 2, 3, 4, 5, 6, 255 :: byte] \<le> 63 \<and>
   (\<exists>fr.
      sendDirectControl sample_header sample_api connected [1, 2, 3, 4, 5, 6, 255] =
        Some (65, connected\<lparr>calls := [HidWrite 7 fr 65]\<rparr>) \<and>
      length fr = 65 \<and> fr ! 0 = 0xA3 \<and> fr ! 1 = 0x10 \<and>
      take 7 (drop 2 fr) = [1, 2, 3, 4, 5, 6, 255])"
proof -
  have h: "handle connected = Some 7" and c: "calls connected = []"
    by (simp_all add: connected_def)
  have l: "length [1, 2, 3, 4, 5, 6, 255 :: byte] \<le> 63"
    by simp
  from direct_control_byte_exact [OF h l, of sample_header sample_api]
  obtain fr where
    "sendDirectControl sample_header sample_api connected [1, 2, 3, 4, 5, 6, 255] =
       Some (hid_write sample_api [] 7 fr 65, connected\<lparr>calls := [HidWrite 7 fr 65]\<rparr>)"
    "length fr = 65" "fr ! 0 = REPORT_GENERIC_INPUT_OUTPUT sample_header"
    "fr ! 1 = DATA_OVERRIDE_DATA sample_header"
    "take (length [1, 2, 3, 4, 5, 6, 255 :: byte]) (drop 2 fr) = [1, 2, 3, 4, 5, 6, 255]"
    unfolding c by auto
  moreover have "hid_write sample_api [] 7 fr 65 = 65" for fr
    by (simp add: sample_api_def)
  moreover have "REPORT_GENERIC_INPUT_OUTPUT sample_header = 0xA3"
    and "DATA_OVERRIDE_DATA sample_header = 0x10"
    by (simp_all add: sample_header_def)
  moreover have "length [1, 2, 3, 4, 5, 6, 255 :: byte] = 7"
    by simp
  ultimately show ?thesis using h l by metis
qed

subsection \<open>Decoding a settings report\<close>

lemma length_filled:
  "len \<le> length buf \<Longrightarrow> length (filled len data buf) = length buf"
  by (simp add: filled_def)

lemma filled_whole:
  "length buf \<le> length data \<Longrightarrow> filled (length buf) data buf = take (length buf) data"
  by (simp add: filled_def)

lemma settings_read_unfold:
  assumes "(rd, rid) \<in> set settings_reads" and "handle s = Some h"
    and "hid_get_feature_report api (calls s) h (rid hdr) (1 + length destination) = (r, data)"
  shows "fst (snd (rd hdr api indet s destination)) =
           (if 0 < r
            then take (length destination)
                   (drop 1 (filled (1 + length destination) data
                              (rid hdr # map indet [0..<length destination])))
            else destination)"
    and "snd (snd (rd hdr api indet s destination)) =
           s\<lparr>calls := calls s @ [HidGetFeatureReport h (rid hdr) (1 + length destination)]\<rparr>"
  using assms by (auto simp add: settings_reads_def read_defs Let_def)

text \<open>
  Claim C7. For each of the four settings reads on a live handle, when the transport
  answers with a positive result, the destination becomes bytes 1 to N of the report buffer
  as the transport left it, N being the size of the settings structure. In particular,
  when the transport delivered an identifier byte followed by N bytes of payload, the
  destination is exactly that payload.
\<close>

theorem settings_decode_verbatim:
  assumes "(rd, rid) \<in> set settings_reads" and "handle s = Some h"
    and "hid_get_feature_report api (calls s) h (rid hdr) (1 + length destination) = (r, data)"
    and "0 < r"
  shows "fst (snd (rd hdr api indet s destination)) =
           take (length destination)
             (drop 1 (filled (1 + length destination) data
                        (rid hdr # map indet [0..<length destination])))
       \<and> (\<forall>b payload. data = b # payload \<and> length payload = length destination
             \<longrightarrow> fst (snd (rd hdr api indet s destination)) = payload)"
proof -
  let ?buf = "rid hdr # map indet [0..<length destination]"
  have 1: "fst (snd (rd hdr api indet s destination)) =
             take (length destination) (drop 1 (filled (1 + length destination) data ?buf))"
    using settings_read_unfold(1) [OF assms(1-3)] assms(4) by simp
  have 2: "take (length destination) (drop 1 (filled (1 + length destination) data ?buf)) = payload"
    if "data = b # payload" and "length payload = length destination" for b payload
    using that by (simp add: filled_def)
  from 1 2 show ?thesis by simp
qed

theorem settings_decode_verbatim_witness:
  "(readGpioExtensionSettings, REPORT_GPIO_SETTINGS_FEATURE) \<in> set settings_reads
   \<and> handle connected = Some 7
   \<and> hid_get_feature_report sample_api (calls connected) 7
        (REPORT_GPIO_SETTINGS_FEATURE sample_header) (1 + length [0, 0, 0 :: byte])
       = (4, [0xA1, 1, 2, 3])
   \<and> fst (snd (readGpioExtensionSettings sample_header sample_api (\<lambda>i. 0) connected [0, 0, 0]))
       = [1, 2, 3]"
proof -
  have m: "(readGpioExtensionSettings, REPORT_GPIO_SETTINGS_FEATURE) \<in> set settings_reads"
    by (simp add: settings_reads_def)
  have h: "handle connected = Some 7"
    by (simp add: connected_def)
  have t: "hid_get_feature_report sample_api (calls connected) 7
        (REPORT_GPIO_SETTINGS_FEATURE sample_header) (1 + length [0, 0, 0 :: byte])
       = (4, [0xA1, 1, 2, 3])"
    by (simp add: sample_api_def sample_header_def upt_rec)
  have p: "(0 :: int) < 4"
    by simp
  have "\<forall>b payload. [0xA1, 1, 2, 3] = b # payload \<and> length payload = length [0, 0, 0 :: byte]
          \<longrightarrow> fst (snd (readGpioExtensionSettings sample_header sample_api (\<lambda>i. 0) connected
                           [0, 0, 0])) = payload"
    using settings_decode_verbatim [OF m h t p, of "\<lambda>i. 0"] ..
  then have "fst (snd (readGpioExtensionSettings sample_header sample_api (\<lambda>i. 0) connected
                         [0, 0, 0])) = [1, 2, 3]"
    by simp
  with m h t show ?thesis by simp
qed

subsection \<open>Reads that do not succeed\<close>

text \<open>
  \<^verbatim>\<open>readState\<close> is defined whenever the bytes the transport stores fit the local report,
  and then it returns the result of the transport, copies only on a positive result and
  records the one call.
\<close>

lemma readState_within_report:
  assumes "handle s = Some h"
    and "hid_read_timeout api (calls s) h 65 100 = (r, data)"
    and "length (take 65 data) \<le> 1 + length destination"
  shows "readState api indet s destination =
           Some (r,
                 if 0 < r
                 then take (length destination)
                        (drop 1 (filled 65 data (map indet [0..<1 + length destination])))
                 else destination,
                 s\<lparr>calls := calls s @ [HidReadTimeout h 65 100]\<rparr>)"
proof -
  have fits: "\<not> length (map indet [0..<1 + length destination]) < length (take 65 data)"
    using assms(3) by (auto simp add: min_def split: if_splits)
  show ?thesis
    unfolding readState_def using assms(1,2) fits
    by (simp only: option.case prod.case Let_def if_False split: if_splits) simp
qed

text \<open>
  Two transports that meet the condition: one that stores nothing when it reports a
  failure or a timeout, and any transport at all when the state structure has 64 bytes,
  so that the report has the 65 bytes the call announces.
\<close>

lemma readState_failed_nothing_stored:
  assumes "handle s = Some h"
    and "hid_read_timeout api (calls s) h 65 100 = (r, [])" and "r \<le> 0"
  shows "readState api indet s destination =
           Some (r, destination, s\<lparr>calls := calls s @ [HidReadTimeout h 65 100]\<rparr>)"
  using readState_within_report [OF assms(1,2), of destination indet] assms(3) by simp

lemma readState_failed_full_size_state:
  assumes "handle s = Some h"
    and "hid_read_timeout api (calls s) h 65 100 = (r, data)" and "r \<le> 0"
    and "length destination = 64"
  shows "readState api indet s destination =
           Some (r, destination, s\<lparr>calls := calls s @ [HidReadTimeout h 65 100]\<rparr>)"
  using readState_within_report [OF assms(1,2), of destination indet] assms(3,4) by simp

text \<open>
  The condition cannot be dropped: the call announces 65 bytes whatever the size of the
  report, and a transport that stores 65 bytes into the report of a 3-byte state structure
  writes past it, whatever result it then reports.
\<close>

lemma readState_overrun:
  "readState (sample_api\<lparr>hid_read_timeout := (\<lambda>cs h n ms. (- 1, replicate 65 0))\<rparr>)
     (\<lambda>i. 0) connected [8, 9, 10] = None"
  by (simp add: readState_def connected_def sample_api_def)

text \<open>
  Claim C10. For each of the four settings reads, if there is no handle or the transport
  answers with a result that is not positive, the destination returned is the destination
  passed in. For \<^verbatim>\<open>readState\<close>, if there is no handle, or the transport answers with a
  result that is not positive and has stored no more bytes than the local report holds
  (as a transport does that stores only the bytes it reports as read), then \<^verbatim>\<open>readState\<close>
  returns and the destination it returns is the destination passed in.
\<close>

theorem failed_read_keeps_destination:
  "((rd, rid) \<in> set settings_reads \<and>
     (\<forall>h. handle s = Some h \<longrightarrow>
        fst (hid_get_feature_report api (calls s) h (rid hdr) (1 + length destination)) \<le> 0)
     \<longrightarrow> fst (snd (rd hdr api indet s destination)) = destination)
   \<and> ((\<forall>h. handle s = Some h \<longrightarrow>
          fst (hid_read_timeout api (calls s) h 65 100) \<le> 0 \<and>
          length (take 65 (snd (hid_read_timeout api (calls s) h 65 100)))
            \<le> 1 + length destination)
     \<longrightarrow> map_option (fst \<circ> snd) (readState api indet s destination) = Some destination)"
proof (intro conjI impI)
  assume a: "(rd, rid) \<in> set settings_reads \<and>
     (\<forall>h. handle s = Some h \<longrightarrow>
        fst (hid_get_feature_report api (calls s) h (rid hdr) (1 + length destination)) \<le> 0)"
  show "fst (snd (rd hdr api indet s destination)) = destination"
  proof (cases "handle s")
    case None
    with a show ?thesis
      by (auto simp add: settings_reads_def read_defs)
  next
    case (Some h)
    obtain r data where
      t: "hid_get_feature_report api (calls s) h (rid hdr) (1 + length destination) = (r, data)"
      by (cases "hid_get_feature_report api (calls s) h (rid hdr) (1 + length destination)")
    with a Some have "r \<le> 0" by auto
    moreover from a have m: "(rd, rid) \<in> set settings_reads" ..
    ultimately show ?thesis
      using settings_read_unfold(1) [OF m Some t, of indet] by simp
  qed
next
  assume a: "\<forall>h. handle s = Some h \<longrightarrow>
          fst (hid_read_timeout api (calls s) h 65 100) \<le> 0 \<and>
          length (take 65 (snd (hid_read_timeout api (calls s) h 65 100)))
            \<le> 1 + length destination"
  show "map_option (fst \<circ> snd) (readState api indet s destination) = Some destination"
  proof (cases "handle s")
    case None
    then show ?thesis by (simp add: readState_def)
  next
    case (Some h)
    obtain r data where t: "hid_read_timeout api (calls s) h 65 100 = (r, data)"
      by (cases "hid_read_timeout api (calls s) h 65 100")
    with a Some have "r \<le> 0" and "length (take 65 data) \<le> 1 + length destination"
      by auto
    then show ?thesis
      using readState_within_report [OF Some t, of destination indet] by simp
  qed
qed

theorem failed_read_keeps_destination_witness:
  "(readHardwareSettings, REPORT_HARDWARE_SETTINGS_FEATURE) \<in> set settings_reads
   \<and> handle connected = Some 7
   \<and> fst (hid_get_feature_report sample_api_read_fails (calls connected) 7
            (REPORT_HARDWARE_SETTINGS_FEATURE sample_header) (1 + length [8, 9, 10 :: byte])) = - 1
   \<and> fst (snd (readHardwareSettings sample_header sample_api_read_fails (\<lambda>i. 0) connected
                  [8, 9, 10])) = [8, 9, 10]
   \<and> hid_read_timeout sample_api_read_fails (calls connected) 7 65 100 = (- 1, [1, 11, 12, 13])
   \<and> length (take 65 [1, 11, 12, 13 :: byte]) \<le> 1 + length [8, 9, 10 :: byte]
   \<and> map_option (fst \<circ> snd) (readState sample_api_read_fails (\<lambda>i. 0) connected [8, 9, 10])
       = Some [8, 9, 10]"
proof -
  have m: "(readHardwareSettings, REPORT_HARDWARE_SETTINGS_FEATURE) \<in> set settings_reads"
    by (simp add: settings_reads_def)
  have h: "handle connected = Some 7"
    by (simp add: connected_def)
  have f7: "fst (hid_get_feature_report sample_api_read_fails (calls connected) 7
            (REPORT_HARDWARE_SETTINGS_FEATURE sample_header) (1 + length [8, 9, 10 :: byte])) = - 1"
    by (simp add: sample_api_read_fails_def)
  have t7: "hid_read_timeout sample_api_read_fails (calls connected) 7 65 100
              = (- 1, [1, 11, 12, 13])"
    by (simp add: sample_api_read_fails_def)
  have l: "length (take 65 [1, 11, 12, 13 :: byte]) \<le> 1 + length [8, 9, 10 :: byte]"
    by simp
  have f: "\<forall>h. handle connected = Some h \<longrightarrow>
          fst (hid_get_feature_report sample_api_read_fails (calls connected) h
                 (REPORT_HARDWARE_SETTINGS_FEATURE sample_header) (1 + length [8, 9, 10 :: byte])) \<le> 0"
    using h f7 by simp
  have t: "\<forall>h. handle connected = Some h \<longrightarrow>
          fst (hid_read_timeout sample_api_read_fails (calls connected) h 65 100) \<le> 0 \<and>
          length (take 65 (snd (hid_read_timeout sample_api_read_fails (calls connected) h 65 100)))
            \<le> 1 + length [8, 9, 10 :: byte]"
    using h t7 by simp
  note inst = failed_read_keeps_destination [of readHardwareSettings
      REPORT_HARDWARE_SETTINGS_FEATURE connected sample_api_read_fails sample_header "[8, 9, 10]"
      "\<lambda>i. 0"]
  from inst m f have 1: "fst (snd (readHardwareSettings sample_header sample_api_read_fails (\<lambda>i. 0)
      connected [8, 9, 10])) = [8, 9, 10]"
    by blast
  from inst t have 2: "map_option (fst \<circ> snd)
      (readState sample_api_read_fails (\<lambda>i. 0) connected [8, 9, 10]) = Some [8, 9, 10]"
    by blast
  from m h f7 1 t7 l 2 show ?thesis by blast
qed

subsection \<open>The value returned by a settings read\<close>

lemma readEffectSettings_returns_transport_result:
  assumes "handle s = Some h"
  shows "fst (readEffectSettings hdr api indet s destination) =
           fst (hid_get_feature_report api (calls s) h (REPORT_EFFECT_SETTINGS_FEATURE hdr)
                  (1 + length destination))"
  using assms by (simp add: readEffectSettings_def Let_def split: prod.splits)

lemma shadowed_result_is_zero:
  "fst (readHardwareSettings hdr api indet s destination) = 0"
  "fst (readGpioExtensionSettings hdr api indet s destination) = 0"
  "fst (readAdcExtensionSettings hdr api indet s destination) = 0"
  by (simp_all add: read_defs Let_def split: option.splits prod.splits)

text \<open>
  Claim C1. \<^verbatim>\<open>readEffectSettings\<close> returns the result of the transport. The three other
  settings reads do not: on a live handle whose transport answers 4 and delivers the
  payload, \<^verbatim>\<open>readHardwareSettings\<close> copies the payload and returns 0, and so do
  \<^verbatim>\<open>readGpioExtensionSettings\<close> and \<^verbatim>\<open>readAdcExtensionSettings\<close>; when the transport answers
  -1 they return 0 as well.
\<close>

theorem settings_read_result_dropped:
  "handle connected = Some 7
   \<and> fst (hid_get_feature_report sample_api (calls connected) 7
            (REPORT_HARDWARE_SETTINGS_FEATURE sample_header) (1 + length [0, 0, 0 :: byte])) = 4
   \<and> readHardwareSettings sample_header sample_api (\<lambda>i. 0) connected [0, 0, 0]
       = (0, [1, 2, 3], connected\<lparr>calls := [HidGetFeatureReport 7 0x21 4]\<rparr>)
   \<and> fst (readGpioExtensionSettings sample_header sample_api (\<lambda>i. 0) connected [0, 0, 0]) = 0
   \<and> fst (readAdcExtensionSettings sample_header sample_api (\<lambda>i. 0) connected [0, 0, 0]) = 0
   \<and> fst (readEffectSettings sample_header sample_api (\<lambda>i. 0) connected [0, 0, 0]) = 4
   \<and> fst (readHardwareSettings sample_header sample_api_read_fails (\<lambda>i. 0) connected [0, 0, 0]) = 0
   \<and> fst (readEffectSettings sample_header sample_api_read_fails (\<lambda>i. 0) connected [0, 0, 0]) = - 1"
  by (simp add: read_defs connected_def sample_api_def sample_api_read_fails_def sample_header_def
      filled_def upt_rec)

subsection \<open>connect\<close>

lemma path_to_open_first:
  assumes "\<forall>x \<in> set before. interface_number x \<noteq> 0" and "interface_number d = 0"
  shows "path_to_open (before @ d # after) = Some (path d)"
  using assms by (induction before) auto

lemma path_to_open_SomeD:
  assumes "path_to_open devs = Some p"
  shows "\<exists>before d after. devs = before @ d # after \<and>
           (\<forall>x \<in> set before. interface_number x \<noteq> 0) \<and> interface_number d = 0 \<and> path d = p"
  using assms
proof (induction devs)
  case Nil
  then show ?case by simp
next
  case (Cons a devs)
  show ?case
  proof (cases "interface_number a = 0")
    case True
    with Cons.prems have "path a = p" by simp
    with True show ?thesis
      by (intro exI [of _ "[]"] exI [of _ a] exI [of _ devs]) simp
  next
    case False
    with Cons.prems have "path_to_open devs = Some p" by simp
    from Cons.IH [OF this] obtain before d after where
      "devs = before @ d # after" "\<forall>x \<in> set before. interface_number x \<noteq> 0"
      "interface_number d = 0" "path d = p"
      by blast
    with False show ?thesis
      by (intro exI [of _ "a # before"] exI [of _ d] exI [of _ after]) simp
  qed
qed

lemma path_to_open_none:
  "path_to_open devs = None \<longleftrightarrow> (\<forall>d \<in> set devs. interface_number d \<noteq> 0)"
  by (induction devs) auto

lemma connect_result:
  "fst (connect hdr api s) =
     (if path_to_open (hid_enumerate api (calls s) (USB_VID hdr) (WHEEL_PID_FS hdr)) = None
      then 0 else 1)"
  by (simp add: connect_def Let_def split: option.splits)

lemma connect_calls:
  "calls (snd (connect hdr api s)) =
     (let devs = hid_enumerate api (calls s) (USB_VID hdr) (WHEEL_PID_FS hdr)
      in calls s @ [HidEnumerate (USB_VID hdr) (WHEEL_PID_FS hdr)]
           @ (case path_to_open devs of None \<Rightarrow> [] | Some p \<Rightarrow> [HidOpenPath p])
           @ [HidFreeEnumeration devs])"
  by (simp add: connect_def Let_def split: option.splits)

lemma connect_opens_first_vendor_interface:
  assumes "hid_enumerate api (calls s) (USB_VID hdr) (WHEEL_PID_FS hdr) = before @ d # after"
    and "\<forall>x \<in> set before. interface_number x \<noteq> 0" and "interface_number d = 0"
  shows "connect hdr api s =
           (1, s\<lparr>handle := hid_open_path api
                              (calls s @ [HidEnumerate (USB_VID hdr) (WHEEL_PID_FS hdr)]) (path d),
                  calls := calls s @ [HidEnumerate (USB_VID hdr) (WHEEL_PID_FS hdr),
                                      HidOpenPath (path d),
                                      HidFreeEnumeration (before @ d # after)]\<rparr>)"
  using path_to_open_first [OF assms(2,3), of after] assms(1)
  by (simp add: connect_def)

lemma connect_without_vendor_interface:
  assumes "\<forall>d \<in> set (hid_enumerate api (calls s) (USB_VID hdr) (WHEEL_PID_FS hdr)).
             interface_number d \<noteq> 0"
  shows "connect hdr api s =
           (0, s\<lparr>calls := calls s @ [HidEnumerate (USB_VID hdr) (WHEEL_PID_FS hdr),
                                      HidFreeEnumeration
                                        (hid_enumerate api (calls s) (USB_VID hdr)
                                           (WHEEL_PID_FS hdr))]\<rparr>)"
  using assms path_to_open_none [THEN iffD2, OF assms]
  by (simp add: connect_def)

text \<open>
  Claim C2. \<^verbatim>\<open>connect\<close> opens the path of the first enumerated interface numbered 0 and
  frees the enumeration on every path, as the lemmas above show. Its result does not tell
  whether a handle was obtained: when \<^verbatim>\<open>hid_open_path\<close> fails, \<^verbatim>\<open>connect\<close> stores the null
  handle and returns 1.
\<close>

theorem connect_reports_success_without_handle:
  "connect sample_header sample_api_open_fails disconnected =
     (1, \<lparr>handle = None,
          calls = [HidEnumerate 0x1209 0x000A, HidOpenPath ''usb:0'',
                   HidFreeEnumeration
                     [\<lparr>path = ''usb:1'', interface_number = 1\<rparr>,
                      \<lparr>path = ''usb:0'', interface_number = 0\<rparr>,
                      \<lparr>path = ''usb:0b'', interface_number = 0\<rparr>]]\<rparr>)"
  by (simp add: connect_def disconnected_def sample_api_open_fails_def sample_api_def
      sample_header_def)


end
